theory Spec2Isabelle
  imports Main
begin

section \<open>Configuration records (config.ts)\<close>

text \<open>
  The option objects of the program are plain JavaScript objects with optional
  properties. An optional property \<open>k?: T\<close> is a field of type \<open>T option\<close>:
  \<open>None\<close> is what reading the property gives when it is absent or \<open>undefined\<close>. The
  keys of oxc-transform's \<open>TransformOptions\<close> that the program never reads are kept
  as an association list of opaque values \<open>'v\<close>, which the object spread copies as
  it is.

  An object can own a key whose value is \<open>undefined\<close>, as in \<open>{srcdir: undefined}\<close>.
  Reading it gives the same as an absent key, but \<open>Object.keys\<close> counts it and the
  object spread copies it. \<open>run\<close> counts the keys of its argument, so the record of
  the top-level object lists these keys in \<open>undefined_keys\<close>; the field of such a key
  is \<open>None\<close>. No code counts the keys of the nested objects.

  TypeScript's object types are structural and the spread in \<open>resolveOptions\<close>
  copies every own key, so one record carries the keys of \<open>PackOptions\<close>
  (\<open>FileOptions\<close>, \<open>TransformOptions\<close>) and of \<open>RunPathOptions\<close>: it is the type
  \<open>PackOptions & RunPathOptions\<close> that \<open>run\<close> accepts. The keys \<open>file\<close> and \<open>root\<close>
  of \<open>RunPathOptions\<close> are the fields \<open>path_file\<close> and \<open>path_root\<close>.
\<close>

record 'v IsolatedDeclarationsOptions =
  declaration_sourcemap :: "bool option"
  declaration_other :: "(string \<times> 'v) list"

record 'v TypeScriptOptions =
  "declaration" :: "'v IsolatedDeclarationsOptions option"
  typescript_other :: "(string \<times> 'v) list"

record 'v PackOptions =
  srcdir :: "string option"
  outdir :: "string option"
  "includes" :: "string list option"
  excludes :: "string list option"
  emptyOutdir :: "bool option"
  sourcemap :: "bool option"
  typescript :: "'v TypeScriptOptions option"
  other :: "(string \<times> 'v) list"
  path_file :: "string option"
  path_root :: "string option"
  undefined_keys :: "string list"

text \<open>The object literal \<open>{}\<close> at each of the three object types.\<close>

definition emptyDeclaration :: "'v IsolatedDeclarationsOptions" where
  "emptyDeclaration = \<lparr>declaration_sourcemap = None, declaration_other = []\<rparr>"

definition emptyTypeScript :: "'v TypeScriptOptions" where
  "emptyTypeScript = \<lparr>declaration = None, typescript_other = []\<rparr>"

definition emptyOptions :: "'v PackOptions" where
  "emptyOptions = \<lparr>srcdir = None, outdir = None, includes = None, excludes = None,
     emptyOutdir = None, sourcemap = None, typescript = None, other = [],
     path_file = None, path_root = None, undefined_keys = []\<rparr>"

subsection \<open>JavaScript truthiness and the operator \<open>||\<close>\<close>

text \<open>
  \<open>a || b\<close> is \<open>a\<close> when \<open>a\<close> is truthy and \<open>b\<close> otherwise. \<open>undefined\<close>, the
  empty string and \<open>false\<close> are falsy; every array and every object is truthy,
  the empty array included.
\<close>

definition truthy_string :: "string \<Rightarrow> bool" where
  "truthy_string s = (s \<noteq> [])"

definition truthy_bool :: "bool \<Rightarrow> bool" where
  "truthy_bool b = b"

definition truthy_object :: "'a \<Rightarrow> bool" where
  "truthy_object x = True"

definition js_or :: "('a \<Rightarrow> bool) \<Rightarrow> 'a option \<Rightarrow> 'a \<Rightarrow> 'a" where
  "js_or truthy a b = (case a of None \<Rightarrow> b | Some v \<Rightarrow> if truthy v then v else b)"

text \<open>Optional chaining \<open>a?.k\<close> on an optional object and an optional property.\<close>

definition chain :: "'a option \<Rightarrow> ('a \<Rightarrow> 'b option) \<Rightarrow> 'b option" where
  "chain a k = (case a of None \<Rightarrow> None | Some obj \<Rightarrow> k obj)"

text \<open>The spread \<open>{...a}\<close> of an optional object: nothing is copied from \<open>undefined\<close>.\<close>

definition spread_typescript :: "'v TypeScriptOptions option \<Rightarrow> 'v TypeScriptOptions" where
  "spread_typescript a = (case a of None \<Rightarrow> emptyTypeScript | Some obj \<Rightarrow> obj)"

subsection \<open>resolveOptions\<close>

text \<open>
  The object literal of \<open>resolveOptions\<close> copies every own key of \<open>options\<close> and
  then sets six keys to values that are never \<open>undefined\<close>: these six leave the list
  of the keys whose value is \<open>undefined\<close>.
\<close>

definition resolved_keys :: "string list" where
  "resolved_keys =
     [''srcdir'', ''outdir'', ''includes'', ''excludes'', ''sourcemap'', ''typescript'']"

definition resolveOptions :: "'v PackOptions \<Rightarrow> 'v PackOptions" where
  "resolveOptions options = options
     \<lparr> srcdir := Some (js_or truthy_string (srcdir options) ''src''),
       outdir := Some (js_or truthy_string (outdir options) ''out''),
       includes := Some (js_or truthy_object (includes options) [''**/*.ts'']),
       excludes := Some (js_or truthy_object (excludes options)
         [''node_modules/**/*'', ''**/*.test.ts'', ''**/test/**/*'']),
       sourcemap := Some (js_or truthy_bool (sourcemap options) True),
       typescript := Some ((spread_typescript (typescript options))
         \<lparr> declaration := Some (js_or truthy_object
             (chain (typescript options) declaration)
             (emptyDeclaration
               \<lparr> declaration_sourcemap := Some (js_or truthy_bool
                   (chain (chain (typescript options) declaration) declaration_sourcemap)
                   True) \<rparr>)) \<rparr>),
       undefined_keys := filter (\<lambda>k. k \<notin> set resolved_keys) (undefined_keys options) \<rparr>"

section \<open>Paths (node:path, POSIX flavour)\<close>

text \<open>
  The program computes with the functions of Node's \<open>node:path\<close> module, which is
  not part of the repository. They are modelled here for POSIX paths (separator
  \<open>/\<close>), following what Node's implementation computes: a path is cut into
  segments at the separator, empty segments and \<open>.\<close> are dropped and \<open>..\<close>
  removes the segment before it.
\<close>

fun split :: "'a \<Rightarrow> 'a list \<Rightarrow> 'a list list" where
  "split sep [] = [[]]"
| "split sep (c # cs) =
     (if c = sep then [] # split sep cs
      else (case split sep cs of [] \<Rightarrow> [[c]] | s # ss \<Rightarrow> (c # s) # ss))"

fun join_with :: "'a list \<Rightarrow> 'a list list \<Rightarrow> 'a list" where
  "join_with sep [] = []"
| "join_with sep [s] = s"
| "join_with sep (s # t # ss) = s @ sep @ join_with sep (t # ss)"

definition isAbsolute :: "string \<Rightarrow> bool" where
  "isAbsolute path = (case path of [] \<Rightarrow> False | c # cs \<Rightarrow> c = CHR ''/'')"

text \<open>
  \<open>normalizeString(path, allowAboveRoot)\<close> of Node, on the segments of the path:
  the result is the list of the segments that remain.
\<close>

definition normalize_step :: "bool \<Rightarrow> string list \<Rightarrow> string \<Rightarrow> string list" where
  "normalize_step allowAboveRoot res seg =
     (if seg = [] \<or> seg = ''.'' then res
      else if seg = ''..'' then
        (if res \<noteq> [] \<and> last res \<noteq> ''..'' then butlast res
         else if allowAboveRoot then res @ [''..'']
         else res)
      else res @ [seg])"

definition normalizeSegments :: "bool \<Rightarrow> string \<Rightarrow> string list" where
  "normalizeSegments allowAboveRoot path =
     foldl (normalize_step allowAboveRoot) [] (split CHR ''/'' path)"

definition normalizeString :: "string \<Rightarrow> bool \<Rightarrow> string" where
  "normalizeString path allowAboveRoot =
     join_with ''/'' (normalizeSegments allowAboveRoot path)"

definition normalize :: "string \<Rightarrow> string" where
  "normalize path =
     (if path = [] then ''.''
      else let trailingSeparator = (last path = CHR ''/'');
               res = normalizeString path (\<not> isAbsolute path)
           in if res = [] then
                (if isAbsolute path then ''/''
                 else if trailingSeparator then ''./'' else ''.'')
              else (if isAbsolute path then ''/'' else []) @ res
                   @ (if trailingSeparator then ''/'' else []))"

text \<open>\<open>join(a, b)\<close>: the non-empty arguments, joined by the separator and normalized.\<close>

definition join :: "string \<Rightarrow> string \<Rightarrow> string" where
  "join a b =
     (case filter (\<lambda>arg. arg \<noteq> []) [a, b] of
        [] \<Rightarrow> ''.''
      | args \<Rightarrow> normalize (join_with ''/'' args))"

text \<open>
  \<open>resolve(path)\<close> with one argument; \<open>cwd\<close> is the working directory of the
  process, which \<open>resolve\<close> reads when the path is not absolute.
\<close>

definition resolve :: "string \<Rightarrow> string \<Rightarrow> string" where
  "resolve cwd path =
     (let resolvedPath = (if path = [] then [] else path @ ''/'');
          resolvedPath' = (if isAbsolute path \<or> cwd = [] then resolvedPath
                           else cwd @ ''/'' @ resolvedPath);
          resolvedAbsolute = (isAbsolute path \<or> isAbsolute cwd);
          res = normalizeString resolvedPath' (\<not> resolvedAbsolute)
      in if resolvedAbsolute then ''/'' @ res
         else if res \<noteq> [] then res else ''.'')"

text \<open>
  \<open>relative(from, to)\<close>: both paths are resolved, the segments they share at the
  front are dropped, and the result climbs out of what is left of \<open>from\<close> and
  descends into what is left of \<open>to\<close>.
\<close>

fun drop_common :: "'a list \<Rightarrow> 'a list \<Rightarrow> 'a list \<times> 'a list" where
  "drop_common (x # xs) (y # ys) =
     (if x = y then drop_common xs ys else (x # xs, y # ys))"
| "drop_common xs ys = (xs, ys)"

definition segments :: "string \<Rightarrow> string list" where
  "segments path = filter (\<lambda>seg. seg \<noteq> []) (split CHR ''/'' path)"

definition relative :: "string \<Rightarrow> string \<Rightarrow> string \<Rightarrow> string" where
  "relative cwd from to =
     (case drop_common (segments (resolve cwd from)) (segments (resolve cwd to)) of
        (up, down) \<Rightarrow> join_with ''/'' (map (\<lambda>seg. ''..'') up @ down))"

text \<open>
  The last component of a path, trailing separators ignored, and those trailing
  separators.
\<close>

definition lastComponent :: "string \<Rightarrow> string" where
  "lastComponent path =
     rev (takeWhile (\<lambda>c. c \<noteq> CHR ''/'') (dropWhile (\<lambda>c. c = CHR ''/'') (rev path)))"

definition trailingSeparators :: "string \<Rightarrow> string" where
  "trailingSeparators path = takeWhile (\<lambda>c. c = CHR ''/'') (rev path)"

text \<open>
  \<open>dirname(path)\<close>: what stands before the separator in front of the last
  component. Node never looks at the first character when it searches that
  separator.
\<close>

definition dirname :: "string \<Rightarrow> string" where
  "dirname path =
     (case path of
        [] \<Rightarrow> ''.''
      | c # cs \<Rightarrow>
          (let front = dropWhile (\<lambda>c. c \<noteq> CHR ''/'')
                          (dropWhile (\<lambda>c. c = CHR ''/'') (rev cs))
           in if front = [] then (if c = CHR ''/'' then ''/'' else ''.'')
              else if c = CHR ''/'' \<and> length front = 1 then ''//''
              else c # rev (tl front)))"

text \<open>
  \<open>extname(path)\<close>: the last component from its last dot on; empty when there is no
  dot, when the last dot is the first character of the component, and for \<open>..\<close>.
\<close>

definition extname :: "string \<Rightarrow> string" where
  "extname path =
     (let base = lastComponent path;
          ext = rev (takeWhile (\<lambda>c. c \<noteq> CHR ''.'') (rev base));
          stem = rev (tl (dropWhile (\<lambda>c. c \<noteq> CHR ''.'') (rev base)))
      in if CHR ''.'' \<notin> set base \<or> stem = [] \<or> base = ''..'' then []
         else CHR ''.'' # ext)"

text \<open>
  \<open>basename(path, suffix)\<close>: the last component, without the suffix when the
  component ends with it and is longer. When the component is shorter than the
  suffix and ends it, Node returns the component with the trailing separators of
  the path.
\<close>

definition endsWith :: "'a list \<Rightarrow> 'a list \<Rightarrow> bool" where
  "endsWith xs suffix =
     (length suffix \<le> length xs \<and> drop (length xs - length suffix) xs = suffix)"

definition basename :: "string \<Rightarrow> string \<Rightarrow> string" where
  "basename path suffix =
     (let base = lastComponent path
      in if suffix \<noteq> [] \<and> length suffix \<le> length path then
           (if suffix = path then []
            else if base = suffix then base
            else if endsWith base suffix then take (length base - length suffix) base
            else if endsWith suffix base then base @ trailingSeparators path
            else base)
         else base)"

text \<open>
  Paths in normal form, for stating what the functions above compute: a plain
  segment is a file or directory name, and an absolute path is the separator
  followed by its segments, joined by the separator.
\<close>

definition plain :: "string \<Rightarrow> bool" where
  "plain seg = (seg \<noteq> [] \<and> CHR ''/'' \<notin> set seg \<and> seg \<noteq> ''.'' \<and> seg \<noteq> ''..'')"

definition absolute_path :: "string list \<Rightarrow> string" where
  "absolute_path segs = CHR ''/'' # join_with ''/'' segs"

section \<open>The output base path (index.ts, transform)\<close>

text \<open>
  The first six lines of \<open>transform(file, options)\<close>: the path, without extension,
  that the four output files of \<open>file\<close> share.
\<close>

definition transform_outBase :: "string \<Rightarrow> 'v PackOptions \<Rightarrow> string \<Rightarrow> string" where
  "transform_outBase cwd options file =
     (let srcdir' = resolve cwd (js_or truthy_string (srcdir options) ''src'');
          outdir' = resolve cwd (js_or truthy_string (outdir options) ''out'');
          outfile = join outdir' (relative cwd srcdir' file);
          outfileDir = dirname outfile;
          outname = basename outfile (extname outfile);
          outBase = join outfileDir outname
      in outBase)"

section \<open>Effects: the file system, the parsers, the module loader, the log\<close>

text \<open>
  What the program asks of the outside (Node's \<open>fs\<close> and \<open>process\<close>, the packages
  glob, strip-json-comments, yaml and oxc-transform, the dynamic \<open>import\<close>) is a
  parameter of the model: an environment of functions. A call that can throw
  returns \<open>error + 'a\<close>. Every call that reaches outside is recorded as an event, in
  the order of the calls, and so is every message logged through consola.
\<close>

datatype error = Error string

text \<open>
  A loaded module: its default export, when there is one, and the module object
  with all its exports, which the program reads as a configuration too.
\<close>

record 'v Module =
  module_default :: "'v PackOptions option"
  module_exports :: "'v PackOptions"

record 'v env =
  process_cwd :: string
  glob_globSync :: "string list \<Rightarrow> string list"
  fs_readFileSync :: "string \<Rightarrow> error + string"
  stripJsonComments :: "string \<Rightarrow> string"
  JSON_parse :: "string \<Rightarrow> error + 'v PackOptions"
  yaml_parse :: "string \<Rightarrow> error + 'v PackOptions option"
  oxc_transform :: "string \<Rightarrow> string \<Rightarrow> error + string"
  encodeURIComponent :: "string \<Rightarrow> string"
  import_module :: "string \<Rightarrow> error + 'v Module"
  glob_glob :: "string list \<Rightarrow> string option \<Rightarrow> string list option \<Rightarrow> error + string list"
  fs_existsSync :: "string \<Rightarrow> bool"
  fs_statSync_isDirectory :: "string \<Rightarrow> error + bool"
  fs_readdirSync :: "string \<Rightarrow> error + string list"
  fs_rmSync :: "string \<Rightarrow> error + unit"
  transform_file :: "string \<Rightarrow> 'v PackOptions \<Rightarrow> error + unit"

datatype 'v event =
    GlobSync "string list"
  | ReadFileSync string
  | Import string
  | ConsolaError string error
  | Glob "string list" "string option" "string list option"
  | ExistsSync string
  | StatSync string
  | ReaddirSync string
  | RmSync string
  | Transform string "'v PackOptions"

type_synonym ('v, 'a) io = "'v event list \<times> (error + 'a)"

definition return_io :: "'a \<Rightarrow> ('v, 'a) io" where
  "return_io a = ([], Inr a)"

definition throw_io :: "error \<Rightarrow> ('v, 'a) io" where
  "throw_io e = ([], Inl e)"

text \<open>An outside call, recorded with what it returned or threw.\<close>

definition perform :: "'v event \<Rightarrow> error + 'a \<Rightarrow> ('v, 'a) io" where
  "perform ev r = ([ev], r)"

text \<open>Sequencing (\<open>await\<close>, \<open>;\<close>): an error ends the computation.\<close>

definition bind_io :: "('v, 'a) io \<Rightarrow> ('a \<Rightarrow> ('v, 'b) io) \<Rightarrow> ('v, 'b) io" where
  "bind_io m f =
     (case m of
        (tr, Inl e) \<Rightarrow> (tr, Inl e)
      | (tr, Inr a) \<Rightarrow> (case f a of (tr', r) \<Rightarrow> (tr @ tr', r)))"

text \<open>\<open>try { m } catch (error) { h }\<close>.\<close>

definition catch_io :: "('v, 'a) io \<Rightarrow> (error \<Rightarrow> ('v, 'a) io) \<Rightarrow> ('v, 'a) io" where
  "catch_io m h =
     (case m of
        (tr, Inl e) \<Rightarrow> (case h e of (tr', r) \<Rightarrow> (tr @ tr', r))
      | (tr, Inr a) \<Rightarrow> (tr, Inr a))"

text \<open>Is an optional value present and truthy: the test of \<open>if (a)\<close> and of \<open>a || b\<close>.\<close>

definition is_truthy :: "('a \<Rightarrow> bool) \<Rightarrow> 'a option \<Rightarrow> bool" where
  "is_truthy truthy a = (case a of None \<Rightarrow> False | Some v \<Rightarrow> truthy v)"

section \<open>Loading the configuration (config.ts)\<close>

definition detectOptionsFile :: "'v env \<Rightarrow> string option \<Rightarrow> ('v, string option) io" where
  "detectOptionsFile env root =
     (let root' = (if \<not> is_truthy truthy_string root then process_cwd env else the root);
          root'' = map (\<lambda>c. if c = CHR 0x5C then CHR ''/'' else c) root';
          globPatterns =
            [root'' @ ''/library-pack.@(json|jsonc|json5|yaml|yml)'',
             root'' @ ''/library-pack.config.@(ts|js|mts|cjs|mjs)'']
      in perform (GlobSync globPatterns)
           (Inr (case glob_globSync env globPatterns of
                   [] \<Rightarrow> None
                 | first # rest \<Rightarrow> if truthy_string first then Some first else None)))"

definition loadJsonOptions :: "'v env \<Rightarrow> string \<Rightarrow> error + 'v PackOptions" where
  "loadJsonOptions env code = JSON_parse env (stripJsonComments env code)"

definition loadYamlOptions :: "'v env \<Rightarrow> string \<Rightarrow> error + 'v PackOptions" where
  "loadYamlOptions env code =
     (case yaml_parse env code of
        Inl e \<Rightarrow> Inl e
      | Inr raw \<Rightarrow> Inr (js_or truthy_object raw emptyOptions))"

definition defineConfig :: "'v PackOptions \<Rightarrow> 'v PackOptions" where
  "defineConfig config = config"

definition loadJSOptions :: "'v env \<Rightarrow> string \<Rightarrow> ('v, 'v PackOptions) io" where
  "loadJSOptions env file =
     catch_io
       (bind_io (perform (Import file) (import_module env file)) (\<lambda>config.
          return_io (js_or truthy_object (module_default config) (module_exports config))))
       (\<lambda>error.
          bind_io (perform (ConsolaError (''Failed to load JavaScript config from '' @ file @ '':'') error)
                     (Inr ()))
            (\<lambda>_. return_io emptyOptions))"

definition loadTSOptions :: "'v env \<Rightarrow> string \<Rightarrow> ('v, 'v PackOptions) io" where
  "loadTSOptions env file =
     catch_io
       (bind_io (perform (ReadFileSync file) (fs_readFileSync env file)) (\<lambda>code.
        bind_io ([], oxc_transform env file code) (\<lambda>result_code.
          if \<not> truthy_string result_code
          then throw_io (Error ''Failed to transform TypeScript to JavaScript'')
          else
            (let dataUrl = ''data:text/javascript;'' @ ''charset=utf-8,''
                             @ encodeURIComponent env result_code
             in bind_io (perform (Import dataUrl) (import_module env dataUrl)) (\<lambda>config.
                  return_io (js_or truthy_object (module_default config)
                               (module_exports config)))))))
       (\<lambda>error.
          bind_io (perform (ConsolaError (''Failed to load TypeScript config from '' @ file @ '':'') error)
                     (Inr ()))
            (\<lambda>_. return_io emptyOptions))"

definition loadOptionsFile :: "'v env \<Rightarrow> string \<Rightarrow> ('v, 'v PackOptions) io" where
  "loadOptionsFile env file =
     bind_io (perform (ReadFileSync file) (fs_readFileSync env file)) (\<lambda>code.
       (let ext = extname file
        in if ext = ''.json'' \<or> ext = ''.jsonc'' \<or> ext = ''.json5''
             then ([], loadJsonOptions env code)
           else if ext = ''.yaml'' \<or> ext = ''.yml''
             then ([], loadYamlOptions env code)
           else if ext = ''.ts'' \<or> ext = ''.mts''
             then loadTSOptions env file
           else if ext = ''.js'' \<or> ext = ''.cjs'' \<or> ext = ''.mjs''
             then loadJSOptions env file
           else return_io emptyOptions))"

definition loadOptions :: "'v env \<Rightarrow> 'v PackOptions option \<Rightarrow> ('v, 'v PackOptions) io" where
  "loadOptions env path =
     bind_io
       (if is_truthy truthy_string (chain path path_file)
        then return_io (chain path path_file)
        else detectOptionsFile env (chain path path_root))
       (\<lambda>file.
          if \<not> is_truthy truthy_string file then return_io emptyOptions
          else loadOptionsFile env (the file))"

section \<open>Packing (utils.ts, index.ts)\<close>

text \<open>
  \<open>maybeEmptyDir(dir)\<close> removes every entry of \<open>dir\<close> when \<open>dir\<close> is given, exists and
  is a directory, and does nothing otherwise. The loop over the entries stops at
  the first removal that throws.
\<close>

fun rmSync_all :: "'v env \<Rightarrow> string list \<Rightarrow> ('v, unit) io" where
  "rmSync_all env [] = return_io ()"
| "rmSync_all env (path # paths) =
     bind_io (perform (RmSync path) (fs_rmSync env path)) (\<lambda>_. rmSync_all env paths)"

definition maybeEmptyDir :: "'v env \<Rightarrow> string option \<Rightarrow> ('v, unit) io" where
  "maybeEmptyDir env dir =
     (if \<not> is_truthy truthy_string dir then return_io ()
      else
        bind_io (perform (ExistsSync (the dir)) (Inr (fs_existsSync env (the dir)))) (\<lambda>present.
          if \<not> present then return_io ()
          else
            bind_io (perform (StatSync (the dir)) (fs_statSync_isDirectory env (the dir)))
              (\<lambda>isDirectory.
                if \<not> isDirectory then return_io ()
                else
                  bind_io (perform (ReaddirSync (the dir)) (fs_readdirSync env (the dir)))
                    (\<lambda>items. rmSync_all env (map (\<lambda>item. join (the dir) item) items)))))"

text \<open>
  \<open>pack\<close> resolves its options, lists the files, empties the output directory when
  asked to, and calls \<open>transform\<close> on every file with the resolved options. Every
  call of \<open>transform\<close> is made and recorded, in the order of the files, before any
  of them settles; what a call reads and writes is outside this model, and the
  environment says whether it fails. \<open>Promise.all\<close> fails when one of the calls
  fails. It reports the failure that comes first in time, which the program does
  not determine: the model reports the one that comes first in the list.
\<close>

fun first_failure :: "(error + unit) list \<Rightarrow> error + unit" where
  "first_failure [] = Inr ()"
| "first_failure (Inl e # rs) = Inl e"
| "first_failure (Inr u # rs) = first_failure rs"

definition pack :: "'v env \<Rightarrow> 'v PackOptions \<Rightarrow> ('v, unit) io" where
  "pack env options =
     (let resolvedOptions = resolveOptions options
      in bind_io
           (perform
              (Glob (js_or truthy_object (includes resolvedOptions) [])
                 (srcdir resolvedOptions) (excludes resolvedOptions))
              (glob_glob env (js_or truthy_object (includes resolvedOptions) [])
                 (srcdir resolvedOptions) (excludes resolvedOptions)))
           (\<lambda>files.
              bind_io
                (if is_truthy truthy_bool (emptyOutdir resolvedOptions)
                 then maybeEmptyDir env (outdir resolvedOptions)
                 else return_io ())
                (\<lambda>_. (map (\<lambda>file. Transform file resolvedOptions) files,
                      first_failure
                        (map (\<lambda>file. transform_file env file resolvedOptions) files)))))"

text \<open>
  \<open>Object.keys(options)\<close>: the keys that the object owns, those whose value is
  \<open>undefined\<close> included. Only their number is used, so their order is not modelled.
\<close>

definition key :: "string \<Rightarrow> 'a option \<Rightarrow> string list" where
  "key k v = (case v of None \<Rightarrow> [] | Some x \<Rightarrow> [k])"

definition Object_keys :: "'v PackOptions \<Rightarrow> string list" where
  "Object_keys options =
     key ''srcdir'' (srcdir options) @ key ''outdir'' (outdir options)
     @ key ''includes'' (includes options) @ key ''excludes'' (excludes options)
     @ key ''emptyOutdir'' (emptyOutdir options) @ key ''sourcemap'' (sourcemap options)
     @ key ''typescript'' (typescript options) @ map fst (other options)
     @ key ''file'' (path_file options) @ key ''root'' (path_root options)
     @ undefined_keys options"

text \<open>
  The events of looking a configuration file up: its detection, and the reading and
  the evaluation of a file.
\<close>

fun config_access :: "'v event \<Rightarrow> bool" where
  "config_access (GlobSync patterns) = True"
| "config_access (ReadFileSync file) = True"
| "config_access (Import specifier) = True"
| "config_access (ConsolaError message error) = False"
| "config_access (Glob patterns cwd ignore) = False"
| "config_access (ExistsSync dir) = False"
| "config_access (StatSync dir) = False"
| "config_access (ReaddirSync dir) = False"
| "config_access (RmSync path) = False"
| "config_access (Transform file options) = False"

definition run :: "'v env \<Rightarrow> 'v PackOptions option \<Rightarrow> ('v, unit) io" where
  "run env options =
     (if is_truthy truthy_string (chain options path_file)
         \<or> is_truthy truthy_string (chain options path_root)
      then bind_io (loadOptions env options) (pack env)
      else if options = None \<or> length (Object_keys (the options)) = 0
      then bind_io (loadOptions env (Some (emptyOptions\<lparr>path_root := Some (process_cwd env)\<rparr>)))
             (pack env)
      else pack env (the options))"

section \<open>An example environment\<close>

text \<open>
  A project directory \<open>/proj\<close> with four configuration files, used to run the
  definitions above on concrete inputs: a JSON file with a line comment and the one
  key \<open>srcdir\<close>, an empty YAML file, and two configuration scripts whose evaluation
  throws. The parsers of the environment return, on these texts, what the
  packages return on them: strip-json-comments blanks a comment out, \<open>JSON.parse\<close>
  builds the object with the one key, and \<open>yaml.parse\<close> of the empty document is
  \<open>null\<close>. The output directory does not exist yet, and the one source file
  transforms without error.
\<close>

definition quoted :: "string \<Rightarrow> string" where
  "quoted s = CHR 0x22 # s @ [CHR 0x22]"

definition example_jsonc :: string where
  "example_jsonc =
     ''{'' @ [CHR 0x0A] @
     ''  // note'' @ [CHR 0x0A] @
     ''  '' @ quoted ''srcdir'' @ '': '' @ quoted ''source'' @ [CHR 0x0A] @
     ''}''"

definition example_json :: string where
  "example_json =
     ''{'' @ [CHR 0x0A] @
     ''         '' @ [CHR 0x0A] @
     ''  '' @ quoted ''srcdir'' @ '': '' @ quoted ''source'' @ [CHR 0x0A] @
     ''}''"

definition example_js :: string where
  "example_js = ''throw 0;'' @ [CHR 0x0A]"

definition example_env :: "unit env" where
  "example_env =
     \<lparr> process_cwd = ''/proj'',
       glob_globSync = (\<lambda>patterns. []),
       fs_readFileSync = (\<lambda>file.
         if file = ''/proj/library-pack.jsonc'' then Inr example_jsonc
         else if file = ''/proj/library-pack.yaml'' then Inr []
         else if file = ''/proj/library-pack.config.js'' then Inr ''throw 0''
         else if file = ''/proj/library-pack.config.ts'' then Inr ''throw 0 as never''
         else Inl (Error ''ENOENT'')),
       stripJsonComments = (\<lambda>code. if code = example_jsonc then example_json else code),
       JSON_parse = (\<lambda>text.
         if text = example_json then Inr (emptyOptions\<lparr>srcdir := Some ''source''\<rparr>)
         else Inl (Error ''SyntaxError'')),
       yaml_parse = (\<lambda>code. if code = [] then Inr None else Inl (Error ''YAMLParseError'')),
       oxc_transform = (\<lambda>file code.
         if code = ''throw 0 as never'' then Inr example_js else Inr code),
       encodeURIComponent = (\<lambda>code.
         concat (map (\<lambda>c. if c = CHR '' '' then ''%20''
                          else if c = CHR '';'' then ''%3B''
                          else if c = CHR 0x0A then ''%0A''
                          else [c]) code)),
       import_module = (\<lambda>specifier. Inl (Error ''0'')),
       glob_glob = (\<lambda>patterns cwd ignore. Inr [''/proj/src/a/b.ts'']),
       fs_existsSync = (\<lambda>path. False),
       fs_statSync_isDirectory = (\<lambda>path. Inl (Error ''ENOENT'')),
       fs_readdirSync = (\<lambda>path. Inl (Error ''ENOENT'')),
       fs_rmSync = (\<lambda>path. Inl (Error ''ENOENT'')),
       transform_file = (\<lambda>file options. Inr ()) \<rparr>"

section \<open>Properties of resolveOptions\<close>

lemma js_or_Some_idem:
  "js_or truthy (Some (js_or truthy a b)) b = js_or truthy a b"
  by (simp add: js_or_def split: option.split)

lemma js_or_object [simp]: "js_or truthy_object (Some v) b = v"
  by (simp add: js_or_def truthy_object_def)

lemma js_or_None [simp]: "js_or truthy None b = b"
  by (simp add: js_or_def)

lemma js_or_string [simp]: "s \<noteq> [] \<Longrightarrow> js_or truthy_string (Some s) b = s"
  "js_or truthy_string (Some []) b = b"
  by (simp_all add: js_or_def truthy_string_def)

lemma js_or_bool_True [simp]: "js_or truthy_bool a True = True"
  by (simp add: js_or_def truthy_bool_def split: option.split)

lemma chain_simps [simp]: "chain None k = None" "chain (Some obj) k = k obj"
  by (simp_all add: chain_def)

lemma spread_typescript_simps [simp]:
  "spread_typescript None = emptyTypeScript" "spread_typescript (Some t) = t"
  by (simp_all add: spread_typescript_def)

lemma emptyOptions_fields:
  "srcdir emptyOptions = None" "outdir emptyOptions = None"
  "includes emptyOptions = None" "excludes emptyOptions = None"
  "emptyOutdir emptyOptions = None" "sourcemap emptyOptions = None"
  "typescript emptyOptions = None" "other emptyOptions = []"
  "path_file emptyOptions = None" "path_root emptyOptions = None"
  "undefined_keys emptyOptions = []"
  by (simp_all add: emptyOptions_def)

lemma resolveOptions_fields:
  "srcdir (resolveOptions p) = Some (js_or truthy_string (srcdir p) ''src'')"
  "outdir (resolveOptions p) = Some (js_or truthy_string (outdir p) ''out'')"
  "includes (resolveOptions p) = Some (js_or truthy_object (includes p) [''**/*.ts''])"
  "excludes (resolveOptions p) = Some (js_or truthy_object (excludes p)
         [''node_modules/**/*'', ''**/*.test.ts'', ''**/test/**/*''])"
  "sourcemap (resolveOptions p) = Some True"
  "emptyOutdir (resolveOptions p) = emptyOutdir p"
  "other (resolveOptions p) = other p"
  "path_file (resolveOptions p) = path_file p"
  "path_root (resolveOptions p) = path_root p"
  "undefined_keys (resolveOptions p)
     = filter (\<lambda>k. k \<notin> set resolved_keys) (undefined_keys p)"
  by (simp_all add: resolveOptions_def)

lemma resolveOptions_typescript:
  "\<exists>t d. typescript (resolveOptions p) = Some t \<and> declaration t = Some d"
  by (simp add: resolveOptions_def)

lemma resolveOptions_typescript_None:
  "typescript p = None \<Longrightarrow> typescript (resolveOptions p) =
     Some \<lparr>declaration = Some \<lparr>declaration_sourcemap = Some True, declaration_other = []\<rparr>,
           typescript_other = []\<rparr>"
  by (simp add: resolveOptions_def emptyTypeScript_def emptyDeclaration_def)

lemma resolveOptions_typescript_Some:
  "typescript p = Some t \<Longrightarrow> typescript (resolveOptions p) =
     Some (t\<lparr>declaration := Some (case declaration t of
        None \<Rightarrow> \<lparr>declaration_sourcemap = Some True, declaration_other = []\<rparr>
      | Some d \<Rightarrow> d)\<rparr>)"
  by (simp add: resolveOptions_def emptyDeclaration_def split: option.split)

text \<open>
  C1. The code at the empty configuration \<open>{}\<close>: every default is filled in as the
  claim says, except that includes is \<open>["**/*.ts"]\<close>, not \<open>["**/*"]\<close>, and that
  emptyOutdir stays absent, not \<open>false\<close>.
\<close>

theorem resolveOptions_empty:
  "resolveOptions (emptyOptions :: 'v PackOptions) =
     \<lparr>srcdir = Some ''src'', outdir = Some ''out'', includes = Some [''**/*.ts''],
      excludes = Some [''node_modules/**/*'', ''**/*.test.ts'', ''**/test/**/*''],
      emptyOutdir = None, sourcemap = Some True,
      typescript = Some \<lparr>declaration =
          Some \<lparr>declaration_sourcemap = Some True, declaration_other = []\<rparr>,
        typescript_other = []\<rparr>,
      other = [], path_file = None, path_root = None, undefined_keys = []\<rparr>
   \<and> includes (resolveOptions (emptyOptions :: 'v PackOptions)) \<noteq> Some [''**/*'']
   \<and> emptyOutdir (resolveOptions (emptyOptions :: 'v PackOptions)) \<noteq> Some False"
  by (simp add: resolveOptions_def emptyOptions_def emptyTypeScript_def emptyDeclaration_def)

text \<open>
  C2. Resolution is idempotent: resolving a resolved record gives the same record,
  for every partial configuration record.
\<close>

theorem resolveOptions_idempotent:
  "resolveOptions (resolveOptions p) = resolveOptions p"
proof -
  obtain t d where t: "typescript (resolveOptions p) = Some t" and d: "declaration t = Some d"
    using resolveOptions_typescript by blast
  have "typescript (resolveOptions (resolveOptions p)) = Some t"
    unfolding resolveOptions_def[of "resolveOptions p"] by (simp add: t d)
  then show ?thesis
    by (intro PackOptions.equality) (simp_all add: resolveOptions_fields js_or_Some_idem t)
qed

text \<open>
  C3, as stated, fails: a source directory explicitly set to the empty string is
  replaced by the default, and a sourcemap explicitly set to \<open>false\<close> becomes \<open>true\<close>.
\<close>

theorem resolveOptions_falsy_overwritten:
  "srcdir (resolveOptions
      (emptyOptions\<lparr>srcdir := Some [], sourcemap := Some False\<rparr> :: unit PackOptions))
     = Some ''src''
   \<and> srcdir (resolveOptions
      (emptyOptions\<lparr>srcdir := Some [], sourcemap := Some False\<rparr> :: unit PackOptions))
     \<noteq> srcdir (emptyOptions\<lparr>srcdir := Some [], sourcemap := Some False\<rparr> :: unit PackOptions)
   \<and> sourcemap (resolveOptions
      (emptyOptions\<lparr>srcdir := Some [], sourcemap := Some False\<rparr> :: unit PackOptions))
     \<noteq> sourcemap (emptyOptions\<lparr>srcdir := Some [], sourcemap := Some False\<rparr> :: unit PackOptions)"
  by (simp add: resolveOptions_fields emptyOptions_def)

text \<open>
  C3, amended. Resolution never overwrites a truthy value that was supplied: a
  non-empty srcdir or outdir, an includes or excludes array (the empty array
  included), emptyOutdir (\<open>false\<close> included) and every other key are carried
  unchanged, and a typescript block keeps its other keys and its declaration block.
  An empty-string srcdir or outdir is replaced by the default, and sourcemap is
  \<open>true\<close> in the resolved record whatever was supplied.
\<close>

theorem resolveOptions_keeps_truthy:
  "(srcdir p = Some src \<longrightarrow> src \<noteq> [] \<longrightarrow> srcdir (resolveOptions p) = Some src)
   \<and> (outdir p = Some out \<longrightarrow> out \<noteq> [] \<longrightarrow> outdir (resolveOptions p) = Some out)
   \<and> (includes p = Some inc \<longrightarrow> includes (resolveOptions p) = Some inc)
   \<and> (excludes p = Some exc \<longrightarrow> excludes (resolveOptions p) = Some exc)
   \<and> emptyOutdir (resolveOptions p) = emptyOutdir p
   \<and> other (resolveOptions p) = other p
   \<and> path_file (resolveOptions p) = path_file p
   \<and> path_root (resolveOptions p) = path_root p
   \<and> undefined_keys (resolveOptions p)
       = filter (\<lambda>k. k \<notin> set resolved_keys) (undefined_keys p)
   \<and> (typescript p = Some t \<longrightarrow>
        (\<exists>t'. typescript (resolveOptions p) = Some t'
           \<and> typescript_other t' = typescript_other t
           \<and> (declaration t = Some d \<longrightarrow> declaration t' = Some d)))
   \<and> (srcdir p = Some [] \<longrightarrow> srcdir (resolveOptions p) = Some ''src'')
   \<and> (outdir p = Some [] \<longrightarrow> outdir (resolveOptions p) = Some ''out'')
   \<and> sourcemap (resolveOptions p) = Some True"
  by (simp add: resolveOptions_fields resolveOptions_typescript_Some)

theorem resolveOptions_keeps_truthy_witness:
  "resolveOptions
     (\<lparr>srcdir = Some ''lib'', outdir = Some [], includes = Some [], excludes = Some [''tmp/**''],
       emptyOutdir = Some False, sourcemap = Some False,
       typescript = Some \<lparr>declaration =
           Some \<lparr>declaration_sourcemap = Some False, declaration_other = []\<rparr>,
         typescript_other = [(''jsxPragma'', ())]\<rparr>,
       other = [(''target'', ())], path_file = None, path_root = Some ''/proj'',
       undefined_keys = []\<rparr>)
   = \<lparr>srcdir = Some ''lib'', outdir = Some ''out'', includes = Some [],
       excludes = Some [''tmp/**''], emptyOutdir = Some False, sourcemap = Some True,
       typescript = Some \<lparr>declaration =
           Some \<lparr>declaration_sourcemap = Some False, declaration_other = []\<rparr>,
         typescript_other = [(''jsxPragma'', ())]\<rparr>,
       other = [(''target'', ())], path_file = None, path_root = Some ''/proj'',
       undefined_keys = []\<rparr>"
  using resolveOptions_keeps_truthy
    [of "\<lparr>srcdir = Some ''lib'', outdir = Some [], includes = Some [], excludes = Some [''tmp/**''],
       emptyOutdir = Some False, sourcemap = Some False,
       typescript = Some \<lparr>declaration =
           Some \<lparr>declaration_sourcemap = Some False, declaration_other = []\<rparr>,
         typescript_other = [(''jsxPragma'', ())]\<rparr>,
       other = [(''target'', ())], path_file = None, path_root = Some ''/proj'',
       undefined_keys = []\<rparr>"
      "''lib''" "[]" "[]" "[''tmp/**'']"
      "\<lparr>declaration = Some \<lparr>declaration_sourcemap = Some False, declaration_other = []\<rparr>,
         typescript_other = [(''jsxPragma'', ())]\<rparr>"
      "\<lparr>declaration_sourcemap = Some False, declaration_other = []\<rparr>"]
  by (intro PackOptions.equality) (auto intro: TypeScriptOptions.equality)

text \<open>
  C6. An includes field that is explicitly set to a non-empty array is the includes
  field of the resolved record, with the same elements in the same order.
\<close>

theorem resolveOptions_includes_verbatim:
  "includes p = Some xs \<Longrightarrow> xs \<noteq> [] \<Longrightarrow> includes (resolveOptions p) = Some xs"
  by (simp add: resolveOptions_fields)

theorem resolveOptions_includes_verbatim_witness:
  "includes (emptyOptions\<lparr>includes := Some [''lib/**/*.ts'', ''bin/*.ts'']\<rparr> :: unit PackOptions)
     = Some [''lib/**/*.ts'', ''bin/*.ts'']
   \<and> [''lib/**/*.ts'', ''bin/*.ts''] \<noteq> ([] :: string list)
   \<and> includes (resolveOptions
        (emptyOptions\<lparr>includes := Some [''lib/**/*.ts'', ''bin/*.ts'']\<rparr> :: unit PackOptions))
     = Some [''lib/**/*.ts'', ''bin/*.ts'']"
  using resolveOptions_includes_verbatim
    [of "emptyOptions\<lparr>includes := Some [''lib/**/*.ts'', ''bin/*.ts'']\<rparr> :: unit PackOptions"
        "[''lib/**/*.ts'', ''bin/*.ts'']"]
  by simp

text \<open>
  C7, as stated, fails: a top-level sourcemap that is present with the value
  \<open>false\<close> is not left as supplied.
\<close>

theorem resolveOptions_sourcemap_forced:
  "sourcemap (resolveOptions (emptyOptions\<lparr>sourcemap := Some False\<rparr> :: unit PackOptions))
     \<noteq> sourcemap (emptyOptions\<lparr>sourcemap := Some False\<rparr> :: unit PackOptions)"
  by (simp add: resolveOptions_fields emptyOptions_def)

text \<open>
  C7, amended. The transform options pass through resolution unchanged except for
  the source maps: the top-level sourcemap is \<open>true\<close> in every resolved record;
  typescript.declaration is \<open>{sourcemap: true}\<close> when the declaration block is
  absent; a declaration block that is present keeps its other keys in every case,
  and when its sourcemap is present (a falsy value included) the block is left as
  supplied.
\<close>

theorem resolveOptions_transform_block:
  "sourcemap (resolveOptions p) = Some True
   \<and> other (resolveOptions p) = other p
   \<and> (\<exists>t'. typescript (resolveOptions p) = Some t'
        \<and> typescript_other t' = typescript_other (spread_typescript (typescript p))
        \<and> (chain (typescript p) declaration = None \<longrightarrow>
             declaration t' = Some \<lparr>declaration_sourcemap = Some True, declaration_other = []\<rparr>)
        \<and> (chain (typescript p) declaration = Some d \<longrightarrow>
             (\<exists>d'. declaration t' = Some d'
                \<and> declaration_other d' = declaration_other d
                \<and> (declaration_sourcemap d = Some b \<longrightarrow> d' = d))))"
  by (cases "typescript p")
    (simp_all add: resolveOptions_fields resolveOptions_typescript_Some
      resolveOptions_typescript_None emptyTypeScript_def)

theorem resolveOptions_transform_block_witness:
  "sourcemap (resolveOptions (emptyOptions
      \<lparr>typescript := Some \<lparr>declaration =
           Some \<lparr>declaration_sourcemap = Some False,
                 declaration_other = [(''stripInternal'', ())]\<rparr>,
         typescript_other = [(''jsxPragma'', ())]\<rparr>\<rparr>)) = Some True
   \<and> typescript (resolveOptions (emptyOptions
      \<lparr>typescript := Some \<lparr>declaration =
           Some \<lparr>declaration_sourcemap = Some False,
                 declaration_other = [(''stripInternal'', ())]\<rparr>,
         typescript_other = [(''jsxPragma'', ())]\<rparr>\<rparr>))
     = Some \<lparr>declaration =
           Some \<lparr>declaration_sourcemap = Some False,
                 declaration_other = [(''stripInternal'', ())]\<rparr>,
         typescript_other = [(''jsxPragma'', ())]\<rparr>
   \<and> (\<exists>t' d'. typescript (resolveOptions (emptyOptions
          \<lparr>typescript := Some \<lparr>declaration =
               Some \<lparr>declaration_sourcemap = None,
                     declaration_other = [(''stripInternal'', ())]\<rparr>,
             typescript_other = []\<rparr>\<rparr>)) = Some t'
        \<and> declaration t' = Some d'
        \<and> declaration_other d' = [(''stripInternal'', ())])
   \<and> typescript (resolveOptions (emptyOptions :: unit PackOptions))
     = Some \<lparr>declaration =
           Some \<lparr>declaration_sourcemap = Some True, declaration_other = []\<rparr>,
         typescript_other = []\<rparr>"
  using resolveOptions_transform_block
    [of "emptyOptions
      \<lparr>typescript := Some \<lparr>declaration =
           Some \<lparr>declaration_sourcemap = Some False,
                 declaration_other = [(''stripInternal'', ())]\<rparr>,
         typescript_other = [(''jsxPragma'', ())]\<rparr>\<rparr>"
      "\<lparr>declaration_sourcemap = Some False, declaration_other = [(''stripInternal'', ())]\<rparr>"
      False]
    resolveOptions_transform_block
    [of "emptyOptions
      \<lparr>typescript := Some \<lparr>declaration =
           Some \<lparr>declaration_sourcemap = None,
                 declaration_other = [(''stripInternal'', ())]\<rparr>,
         typescript_other = []\<rparr>\<rparr>"
      "\<lparr>declaration_sourcemap = None, declaration_other = [(''stripInternal'', ())]\<rparr>"]
    resolveOptions_transform_block [of "emptyOptions :: unit PackOptions"]
  by (auto simp add: emptyOptions_fields emptyTypeScript_def intro: TypeScriptOptions.equality)

section \<open>Properties of the output base path\<close>

lemma split_not_Nil [simp]: "split sep xs \<noteq> []"
  by (induction xs) (auto split: list.split)

lemma split_no_sep: "sep \<notin> set xs \<Longrightarrow> split sep xs = [xs]"
  by (induction xs) auto

lemma split_append: "split sep (xs @ sep # ys) = split sep xs @ split sep ys"
  by (induction xs) (auto split: list.split)

lemma join_with_snoc:
  "segs \<noteq> [] \<Longrightarrow> join_with sep (segs @ [x]) = join_with sep segs @ sep @ x"
  by (induction sep segs rule: join_with.induct) auto

lemma join_with_not_Nil:
  "segs \<noteq> [] \<Longrightarrow> \<forall>s \<in> set segs. s \<noteq> [] \<Longrightarrow> join_with sep segs \<noteq> []"
  by (induction sep segs rule: join_with.induct) auto

lemma split_join_with:
  "segs \<noteq> [] \<Longrightarrow> \<forall>s \<in> set segs. sep \<notin> set s \<Longrightarrow>
     split sep (join_with [sep] segs) = segs"
proof (induction "[sep]" segs rule: join_with.induct)
  case 1
  then show ?case by simp
next
  case (2 s)
  then show ?case by (simp add: split_no_sep)
next
  case (3 s t ss)
  then show ?case by (simp add: split_append split_no_sep)
qed

lemma foldl_normalize_plain:
  "\<forall>s \<in> set segs. plain s \<Longrightarrow> foldl (normalize_step b) res segs = res @ segs"
  by (induction segs arbitrary: res) (auto simp add: normalize_step_def plain_def)

lemma normalize_step_Nil [simp]: "normalize_step b res [] = res"
  by (simp add: normalize_step_def)

lemma normalizeSegments_Nil [simp]: "normalizeSegments b [] = []"
  by (simp add: normalizeSegments_def normalize_step_def)

lemma normalizeSegments_append:
  "normalizeSegments b (xs @ CHR ''/'' # ys) =
     foldl (normalize_step b) (normalizeSegments b xs) (split CHR ''/'' ys)"
  by (simp add: normalizeSegments_def split_append)

lemma normalizeSegments_slash [simp]:
  "normalizeSegments b (CHR ''/'' # ys) = normalizeSegments b ys"
  using normalizeSegments_append [of b "[]" ys] by (simp add: normalizeSegments_def)

lemma normalizeSegments_join:
  assumes "\<forall>s \<in> set segs. plain s"
  shows "normalizeSegments b (join_with ''/'' segs) = segs"
proof (cases "segs = []")
  case True
  then show ?thesis by simp
next
  case False
  with assms have "split CHR ''/'' (join_with ''/'' segs) = segs"
    by (intro split_join_with) (auto simp add: plain_def)
  with assms show ?thesis
    by (simp add: normalizeSegments_def foldl_normalize_plain)
qed

lemma normalizeSegments_absolute:
  "\<forall>s \<in> set segs. plain s \<Longrightarrow> normalizeSegments b (absolute_path segs) = segs"
  by (simp add: absolute_path_def normalizeSegments_join)

lemma resolve_absolute:
  "isAbsolute path \<Longrightarrow> resolve cwd path = ''/'' @ normalizeString (path @ ''/'') False"
  by (auto simp add: resolve_def isAbsolute_def Let_def)

lemma resolve_absolute_path:
  assumes "\<forall>s \<in> set segs. plain s"
  shows "resolve cwd (absolute_path segs) = absolute_path segs"
proof -
  have "normalizeSegments False (absolute_path segs @ ''/'') = segs"
    using normalizeSegments_append [of False "absolute_path segs" "[]"] assms
    by (simp add: normalizeSegments_absolute normalize_step_def)
  then show ?thesis
    by (simp add: resolve_absolute isAbsolute_def normalizeString_def absolute_path_def)
qed

lemma segments_absolute_path:
  assumes "\<forall>s \<in> set segs. plain s"
  shows "segments (absolute_path segs) = segs"
proof (cases "segs = []")
  case True
  then show ?thesis by (simp add: segments_def absolute_path_def)
next
  case False
  with assms have "split CHR ''/'' (join_with ''/'' segs) = segs"
    by (intro split_join_with) (auto simp add: plain_def)
  moreover have "filter (\<lambda>seg. seg \<noteq> []) segs = segs"
    using assms by (auto simp add: plain_def intro: filter_True)
  ultimately show ?thesis
    by (simp add: segments_def absolute_path_def)
qed

lemma drop_common_Nil [simp]: "drop_common [] ys = ([], ys)"
  by (cases ys) simp_all

lemma drop_common_append: "drop_common xs (xs @ ys) = ([], ys)"
  by (induction xs) simp_all

lemma relative_absolute_path:
  assumes "\<forall>s \<in> set (src @ rest). plain s"
  shows "relative cwd (absolute_path src) (absolute_path (src @ rest)) = join_with ''/'' rest"
  using assms
  by (simp add: relative_def resolve_absolute_path segments_absolute_path drop_common_append)

lemma last_join_with:
  "segs \<noteq> [] \<Longrightarrow> \<forall>s \<in> set segs. s \<noteq> [] \<Longrightarrow>
     last (join_with sep segs) = last (last segs)"
  by (induction sep segs rule: join_with.induct) (auto simp add: join_with_not_Nil)

lemma join_absolute_path:
  assumes "\<forall>s \<in> set (dir @ rest). plain s" and "rest \<noteq> []"
  shows "join (absolute_path dir) (join_with ''/'' rest) = absolute_path (dir @ rest)"
proof -
  let ?b = "join_with ''/'' rest"
  let ?path = "absolute_path dir @ ''/'' @ ?b"
  have nonempty: "\<forall>s \<in> set rest. s \<noteq> []"
    using assms(1) by (auto simp add: plain_def)
  have b: "?b \<noteq> []"
    using assms(2) nonempty by (rule join_with_not_Nil)
  have "plain (last rest)"
    using assms by auto
  then have "last (last rest) \<noteq> CHR ''/''"
    by (metis last_in_set plain_def)
  then have trailing: "last ?path \<noteq> CHR ''/''"
    using b last_join_with [OF assms(2) nonempty, of "''/''"] by simp
  have "split CHR ''/'' ?b = rest"
    using assms by (intro split_join_with) (auto simp add: plain_def)
  then have "normalizeSegments False ?path = dir @ rest"
    using normalizeSegments_append [of False "absolute_path dir" ?b] assms(1)
    by (simp add: normalizeSegments_absolute foldl_normalize_plain)
  moreover have "join_with ''/'' (dir @ rest) \<noteq> []"
    using assms by (intro join_with_not_Nil) (auto simp add: plain_def)
  moreover have "join (absolute_path dir) ?b = normalize ?path"
    using b by (simp add: join_def absolute_path_def)
  moreover have "isAbsolute ?path" "?path \<noteq> []"
    by (simp_all add: isAbsolute_def absolute_path_def)
  ultimately show ?thesis
    using trailing
    by (simp add: normalize_def normalizeString_def Let_def absolute_path_def)
qed

lemma absolute_path_snoc:
  "absolute_path (dir @ [name]) =
     (if dir = [] then [] else absolute_path dir) @ CHR ''/'' # name"
  by (simp add: absolute_path_def join_with_snoc)

lemma absolute_path_not_Nil [simp]: "absolute_path segs \<noteq> []"
  by (simp add: absolute_path_def)

lemma dropWhile_slash_rev:
  "name \<noteq> [] \<Longrightarrow> CHR ''/'' \<notin> set name \<Longrightarrow>
     dropWhile (\<lambda>c. c = CHR ''/'') (rev name @ rest) = rev name @ rest"
  by (cases name rule: rev_cases) auto

lemma lastComponent_snoc:
  assumes "name \<noteq> []" and "CHR ''/'' \<notin> set name"
  shows "lastComponent (pre @ CHR ''/'' # name) = name"
proof -
  have "takeWhile (\<lambda>c. c \<noteq> CHR ''/'') (rev name @ CHR ''/'' # rev pre) = rev name"
    using assms(2) by (auto simp add: takeWhile_tail)
  then show ?thesis
    using dropWhile_slash_rev [OF assms, of "CHR ''/'' # rev pre"]
    by (simp add: lastComponent_def)
qed

lemma dirname_absolute_path:
  assumes "\<forall>s \<in> set (dir @ [name]). plain s"
  shows "dirname (absolute_path (dir @ [name])) = absolute_path dir"
proof -
  have name: "name \<noteq> []" "CHR ''/'' \<notin> set name"
    using assms by (simp_all add: plain_def)
  have all: "\<And>rest. dropWhile (\<lambda>c. c \<noteq> CHR ''/'') (rev name @ rest)
      = dropWhile (\<lambda>c. c \<noteq> CHR ''/'') rest"
    using name(2) by (intro dropWhile_append2) auto
  show ?thesis
  proof (cases "dir = []")
    case True
    then show ?thesis
      using dropWhile_slash_rev [OF name, of "[]"] all [of "[]"]
      by (simp add: dirname_def absolute_path_def)
  next
    case False
    then have "join_with ''/'' dir \<noteq> []"
      using assms by (intro join_with_not_Nil) (auto simp add: plain_def)
    then show ?thesis
      using False dropWhile_slash_rev [OF name, of "CHR ''/'' # rev (join_with ''/'' dir)"]
        all [of "CHR ''/'' # rev (join_with ''/'' dir)"]
      by (simp add: dirname_def absolute_path_def join_with_snoc)
  qed
qed

lemma stem_dot_ext:
  "stem \<noteq> [] \<Longrightarrow> stem \<noteq> ''.'' \<Longrightarrow> stem @ CHR ''.'' # ext \<noteq> ''..''"
  "stem \<noteq> [] \<Longrightarrow> stem @ CHR ''.'' # ext \<noteq> ''.''"
  by (auto simp add: append_eq_Cons_conv)

lemma extname_snoc:
  assumes "plain stem" and "CHR ''.'' \<notin> set ext" and "CHR ''/'' \<notin> set ext"
  shows "extname (pre @ CHR ''/'' # stem @ CHR ''.'' # ext) = CHR ''.'' # ext"
proof -
  let ?name = "stem @ CHR ''.'' # ext"
  have "?name \<noteq> []" "CHR ''/'' \<notin> set ?name"
    using assms by (simp_all add: plain_def)
  then have base: "lastComponent (pre @ CHR ''/'' # ?name) = ?name"
    by (rule lastComponent_snoc)
  have ext: "takeWhile (\<lambda>c. c \<noteq> CHR ''.'') (rev ext @ CHR ''.'' # rev stem) = rev ext"
    using assms(2) by (auto simp add: takeWhile_tail)
  have "dropWhile (\<lambda>c. c \<noteq> CHR ''.'') (rev ext @ CHR ''.'' # rev stem)
      = dropWhile (\<lambda>c. c \<noteq> CHR ''.'') (CHR ''.'' # rev stem)"
    using assms(2) by (intro dropWhile_append2) auto
  then have stem: "dropWhile (\<lambda>c. c \<noteq> CHR ''.'') (rev ext @ CHR ''.'' # rev stem)
      = CHR ''.'' # rev stem"
    by simp
  have "?name \<noteq> ''..''"
    using assms(1) by (simp add: plain_def stem_dot_ext)
  moreover have "stem \<noteq> []"
    using assms(1) by (simp add: plain_def)
  ultimately show ?thesis
    unfolding extname_def base by (simp add: Let_def ext stem)
qed

lemma basename_snoc:
  assumes "plain stem" and "CHR ''/'' \<notin> set ext"
  shows "basename (pre @ CHR ''/'' # stem @ CHR ''.'' # ext) (CHR ''.'' # ext) = stem"
proof -
  let ?name = "stem @ CHR ''.'' # ext"
  have "?name \<noteq> []" "CHR ''/'' \<notin> set ?name"
    using assms by (simp_all add: plain_def)
  then have base: "lastComponent (pre @ CHR ''/'' # ?name) = ?name"
    by (rule lastComponent_snoc)
  have stem: "stem \<noteq> []"
    using assms(1) by (simp add: plain_def)
  have "pre @ CHR ''/'' # ?name \<noteq> CHR ''.'' # ext"
  proof
    assume "pre @ CHR ''/'' # ?name = CHR ''.'' # ext"
    then have "length (pre @ CHR ''/'' # ?name) = length (CHR ''.'' # ext)"
      by (rule arg_cong)
    then show False by simp
  qed
  moreover have "?name \<noteq> CHR ''.'' # ext"
    using stem by simp
  ultimately show ?thesis
    unfolding basename_def base by (simp add: Let_def endsWith_def)
qed

text \<open>
  C5. The output base path of a file is its path relative to the source directory,
  joined onto the output directory, without the final extension: for a source
  directory \<open>/src\<close>, an output directory \<open>/out\<close> and a file \<open>/src/rel/stem.ext\<close>, all
  in normal form, it is \<open>/out/rel/stem\<close>, whatever the working directory. The
  instance for \<open>/proj/src\<close>, \<open>/proj/out\<close> and \<open>/proj/src/a/b.ts\<close> follows it.
\<close>

theorem transform_outBase_mirrors:
  assumes "\<forall>seg \<in> set (src @ out @ rel). plain seg"
    and "srcdir options = Some (absolute_path src)"
    and "outdir options = Some (absolute_path out)"
    and "plain stem" and "CHR ''.'' \<notin> set ext" and "CHR ''/'' \<notin> set ext"
  shows "transform_outBase cwd options (absolute_path (src @ rel @ [stem @ CHR ''.'' # ext]))
     = absolute_path (out @ rel @ [stem])"
proof -
  let ?name = "stem @ CHR ''.'' # ext"
  have name: "plain ?name"
    using assms(4,6) by (simp add: plain_def stem_dot_ext)
  have src: "resolve cwd (absolute_path src) = absolute_path src"
    and out: "resolve cwd (absolute_path out) = absolute_path out"
    using assms(1) by (simp_all add: resolve_absolute_path)
  have rel: "relative cwd (absolute_path src) (absolute_path (src @ rel @ [?name]))
      = join_with ''/'' (rel @ [?name])"
    using assms(1) name by (intro relative_absolute_path) auto
  have outfile: "join (absolute_path out) (join_with ''/'' (rel @ [?name]))
      = absolute_path ((out @ rel) @ [?name])"
    using assms(1) name join_absolute_path [of out "rel @ [?name]"] by auto
  have dir: "dirname (absolute_path ((out @ rel) @ [?name])) = absolute_path (out @ rel)"
    using assms(1) name by (intro dirname_absolute_path) auto
  have shape: "absolute_path ((out @ rel) @ [?name])
      = (if out @ rel = [] then [] else absolute_path (out @ rel)) @ CHR ''/'' # ?name"
    by (rule absolute_path_snoc)
  have ext: "extname (absolute_path ((out @ rel) @ [?name])) = CHR ''.'' # ext"
    unfolding shape using assms(4,5,6) by (rule extname_snoc)
  have base: "basename (absolute_path ((out @ rel) @ [?name])) (CHR ''.'' # ext) = stem"
    unfolding shape using assms(4,6) by (rule basename_snoc)
  have outBase: "join (absolute_path (out @ rel)) stem = absolute_path ((out @ rel) @ [stem])"
    using assms(1,4) join_absolute_path [of "out @ rel" "[stem]"] by auto
  show ?thesis
    using src out rel outfile dir ext base outBase assms(2,3)
    by (simp add: transform_outBase_def Let_def)
qed

theorem transform_outBase_mirrors_witness:
  "plain ''proj'' \<and> plain ''src'' \<and> plain ''out'' \<and> plain ''a'' \<and> plain ''b''
   \<and> CHR ''.'' \<notin> set ''ts'' \<and> CHR ''/'' \<notin> set ''ts''
   \<and> absolute_path [''proj'', ''src''] = ''/proj/src''
   \<and> absolute_path [''proj'', ''out''] = ''/proj/out''
   \<and> absolute_path ([''proj'', ''src''] @ [''a''] @ [''b'' @ CHR ''.'' # ''ts'']) = ''/proj/src/a/b.ts''
   \<and> transform_outBase ''/home/dev''
        (emptyOptions\<lparr>srcdir := Some ''/proj/src'', outdir := Some ''/proj/out''\<rparr>)
        ''/proj/src/a/b.ts'' = ''/proj/out/a/b''"
proof -
  have segs: "plain ''proj''" "plain ''src''" "plain ''out''" "plain ''a''" "plain ''b''"
    by (simp_all add: plain_def)
  have paths: "absolute_path [''proj'', ''src''] = ''/proj/src''"
    "absolute_path [''proj'', ''out''] = ''/proj/out''"
    "absolute_path ([''proj'', ''src''] @ [''a''] @ [''b'' @ CHR ''.'' # ''ts'']) = ''/proj/src/a/b.ts''"
    "absolute_path ([''proj'', ''out''] @ [''a''] @ [''b'']) = ''/proj/out/a/b''"
    by (simp_all add: absolute_path_def)
  show ?thesis
    using transform_outBase_mirrors
      [of "[''proj'', ''src'']" "[''proj'', ''out'']" "[''a'']"
          "emptyOptions\<lparr>srcdir := Some ''/proj/src'', outdir := Some ''/proj/out''\<rparr>"
          "''b''" "''ts''" "''/home/dev''"]
      segs
    unfolding paths by simp
qed

section \<open>Properties of the loaders and of run\<close>

lemma bind_io_simps [simp]:
  "bind_io (tr, Inl e) f = (tr, Inl e)"
  "bind_io (tr, Inr a) f = (tr @ fst (f a), snd (f a))"
  by (simp_all add: bind_io_def split: prod.split)

lemma catch_io_simps [simp]:
  "catch_io (tr, Inl e) h = (tr @ fst (h e), snd (h e))"
  "catch_io (tr, Inr a) h = (tr, Inr a)"
  by (simp_all add: catch_io_def split: prod.split)

lemma is_truthy_simps [simp]:
  "is_truthy truthy None = False" "is_truthy truthy (Some v) = truthy v"
  by (simp_all add: is_truthy_def)

lemma extname_Nil [simp]: "extname [] = []"
  by (simp add: extname_def lastComponent_def)

lemma loadJSOptions_cases:
  "loadJSOptions env file =
     (case import_module env file of
        Inl err \<Rightarrow> ([Import file,
            ConsolaError (''Failed to load JavaScript config from '' @ file @ '':'') err],
          Inr emptyOptions)
      | Inr config \<Rightarrow> ([Import file],
          Inr (js_or truthy_object (module_default config) (module_exports config))))"
  by (simp add: loadJSOptions_def perform_def return_io_def split: sum.split)

lemma loadJSOptions_returns: "\<exists>tr opts. loadJSOptions env file = (tr, Inr opts)"
  by (simp add: loadJSOptions_cases split: sum.split)

lemma catch_io_returns:
  assumes "\<And>e. \<exists>tr a. h e = (tr, Inr a)"
  shows "\<exists>tr a. catch_io m h = (tr, Inr a)"
proof (cases m)
  case (Pair tr r)
  show ?thesis
  proof (cases r)
    case (Inl e)
    obtain tr' a where "h e = (tr', Inr a)"
      using assms by blast
    with Pair Inl show ?thesis by simp
  next
    case (Inr a)
    with Pair show ?thesis by simp
  qed
qed

lemma loadTSOptions_returns: "\<exists>tr opts. loadTSOptions env file = (tr, Inr opts)"
  unfolding loadTSOptions_def
  by (rule catch_io_returns) (simp add: perform_def return_io_def)

lemma loadTSOptions_import_throws:
  assumes "fs_readFileSync env file = Inr code"
    and "oxc_transform env file code = Inr js" and "js \<noteq> []"
    and "import_module env (''data:text/javascript;charset=utf-8,'' @ encodeURIComponent env js)
           = Inl err"
  shows "loadTSOptions env file =
     ([ReadFileSync file,
       Import (''data:text/javascript;charset=utf-8,'' @ encodeURIComponent env js),
       ConsolaError (''Failed to load TypeScript config from '' @ file @ '':'') err],
      Inr emptyOptions)"
  using assms
  by (simp add: loadTSOptions_def perform_def return_io_def throw_io_def Let_def
      truthy_string_def)

lemma loadOptions_file:
  "file \<noteq> [] \<Longrightarrow> path_file options = Some file \<Longrightarrow>
     loadOptions env (Some options) = loadOptionsFile env file"
  by (simp add: loadOptions_def return_io_def truthy_string_def)

lemma run_file:
  "file \<noteq> [] \<Longrightarrow> path_file options = Some file \<Longrightarrow>
     run env (Some options) = bind_io (loadOptionsFile env file) (pack env)"
  by (simp add: run_def loadOptions_file truthy_string_def)

lemma loadOptionsFile_js:
  "fs_readFileSync env file = Inr code \<Longrightarrow>
   extname file = ''.js'' \<or> extname file = ''.cjs'' \<or> extname file = ''.mjs'' \<Longrightarrow>
   loadOptionsFile env file = (ReadFileSync file # fst (loadJSOptions env file),
     snd (loadJSOptions env file))"
  by (auto simp add: loadOptionsFile_def perform_def Let_def)

lemma loadOptionsFile_ts:
  "fs_readFileSync env file = Inr code \<Longrightarrow>
   extname file = ''.ts'' \<or> extname file = ''.mts'' \<Longrightarrow>
   loadOptionsFile env file = (ReadFileSync file # fst (loadTSOptions env file),
     snd (loadTSOptions env file))"
  by (auto simp add: loadOptionsFile_def perform_def Let_def)

lemma loadOptionsFile_yaml:
  "fs_readFileSync env file = Inr code \<Longrightarrow>
   extname file = ''.yaml'' \<or> extname file = ''.yml'' \<Longrightarrow>
   loadOptionsFile env file = ([ReadFileSync file], loadYamlOptions env code)"
  by (auto simp add: loadOptionsFile_def perform_def Let_def)

lemma loadOptionsFile_json:
  "fs_readFileSync env file = Inr code \<Longrightarrow>
   extname file = ''.json'' \<or> extname file = ''.jsonc'' \<or> extname file = ''.json5'' \<Longrightarrow>
   loadOptionsFile env file = ([ReadFileSync file], loadJsonOptions env code)"
  by (auto simp add: loadOptionsFile_def perform_def Let_def)

text \<open>
  C4. The code on a JSON configuration with a line comment and the one key
  \<open>"srcdir": "source"\<close>: the loader returns the parsed object as it is. Its source
  directory is \<open>"source"\<close>, and the other fields are absent: no default is filled in.
\<close>

theorem loadOptionsFile_jsonc_unresolved:
  "loadOptionsFile example_env ''/proj/library-pack.jsonc''
     = ([ReadFileSync ''/proj/library-pack.jsonc''],
        Inr (emptyOptions\<lparr>srcdir := Some ''source''\<rparr>))
   \<and> outdir (emptyOptions\<lparr>srcdir := Some ''source''\<rparr> :: unit PackOptions) = None
   \<and> includes (emptyOptions\<lparr>srcdir := Some ''source''\<rparr> :: unit PackOptions) = None
   \<and> excludes (emptyOptions\<lparr>srcdir := Some ''source''\<rparr> :: unit PackOptions) = None
   \<and> emptyOutdir (emptyOptions\<lparr>srcdir := Some ''source''\<rparr> :: unit PackOptions) = None"
  by code_simp

text \<open>
  C9. An empty or null YAML document, for which \<open>yaml.parse\<close> returns \<open>null\<close>, loads as
  the empty partial configuration record \<open>{}\<close>: the loader returns normally, both
  \<open>loadYamlOptions\<close> itself and \<open>loadOptionsFile\<close> on a file with a YAML extension.
\<close>

theorem loadYamlOptions_null:
  "yaml_parse env code = Inr None \<longrightarrow>
     loadYamlOptions env code = Inr emptyOptions
     \<and> (fs_readFileSync env file = Inr code
          \<and> (extname file = ''.yaml'' \<or> extname file = ''.yml'') \<longrightarrow>
        loadOptionsFile env file = ([ReadFileSync file], Inr emptyOptions))"
  by (auto simp add: loadOptionsFile_yaml loadYamlOptions_def)

theorem loadYamlOptions_null_witness:
  "yaml_parse example_env [] = Inr None
   \<and> fs_readFileSync example_env ''/proj/library-pack.yaml'' = Inr []
   \<and> extname ''/proj/library-pack.yaml'' = ''.yaml''
   \<and> loadYamlOptions example_env [] = Inr emptyOptions
   \<and> loadOptionsFile example_env ''/proj/library-pack.yaml''
       = ([ReadFileSync ''/proj/library-pack.yaml''], Inr emptyOptions)"
proof -
  have 1: "yaml_parse example_env [] = Inr None"
    by (simp add: example_env_def)
  have 2: "fs_readFileSync example_env ''/proj/library-pack.yaml'' = Inr []"
    by (simp add: example_env_def)
  have 3: "extname ''/proj/library-pack.yaml'' = ''.yaml''"
    by code_simp
  show ?thesis
    using loadYamlOptions_null [of example_env "[]" "''/proj/library-pack.yaml''"] 1 2 3
    by simp
qed

lemma example_pack_empty:
  "pack example_env emptyOptions =
     ([Glob [''**/*.ts''] (Some ''src'')
         (Some [''node_modules/**/*'', ''**/*.test.ts'', ''**/test/**/*'']),
       Transform ''/proj/src/a/b.ts'' (resolveOptions emptyOptions)],
      Inr ())"
  by code_simp

text \<open>
  C8. A configuration script whose evaluation throws does not make the loader
  throw. \<open>loadJSOptions\<close> and \<open>loadTSOptions\<close> always return a record. When the import
  of a js, cjs or mjs file throws, or the import of the transformed code of a ts or
  mts file, \<open>loadOptionsFile\<close> logs one error-level message and returns \<open>{}\<close>, and
  \<open>run\<close> on that file goes on to pack the empty record, that is with the defaults.
\<close>

theorem script_config_fail_soft:
  "(\<exists>tr opts. loadJSOptions env file = (tr, Inr opts))
   \<and> (\<exists>tr opts. loadTSOptions env tsfile = (tr, Inr opts))
   \<and> (fs_readFileSync env file = Inr code
        \<and> (extname file = ''.js'' \<or> extname file = ''.cjs'' \<or> extname file = ''.mjs'')
        \<and> import_module env file = Inl err \<longrightarrow>
      loadOptionsFile env file =
        ([ReadFileSync file, Import file,
          ConsolaError (''Failed to load JavaScript config from '' @ file @ '':'') err],
         Inr emptyOptions)
      \<and> (path_file options = Some file \<longrightarrow>
          run env (Some options) =
            ([ReadFileSync file, Import file,
              ConsolaError (''Failed to load JavaScript config from '' @ file @ '':'') err]
             @ fst (pack env emptyOptions),
             snd (pack env emptyOptions))))
   \<and> (fs_readFileSync env tsfile = Inr tscode
        \<and> (extname tsfile = ''.ts'' \<or> extname tsfile = ''.mts'')
        \<and> oxc_transform env tsfile tscode = Inr js \<and> js \<noteq> []
        \<and> import_module env (''data:text/javascript;charset=utf-8,'' @ encodeURIComponent env js)
            = Inl tserr \<longrightarrow>
      loadOptionsFile env tsfile =
        ([ReadFileSync tsfile, ReadFileSync tsfile,
          Import (''data:text/javascript;charset=utf-8,'' @ encodeURIComponent env js),
          ConsolaError (''Failed to load TypeScript config from '' @ tsfile @ '':'') tserr],
         Inr emptyOptions)
      \<and> (path_file tsoptions = Some tsfile \<longrightarrow>
          run env (Some tsoptions) =
            ([ReadFileSync tsfile, ReadFileSync tsfile,
              Import (''data:text/javascript;charset=utf-8,'' @ encodeURIComponent env js),
              ConsolaError (''Failed to load TypeScript config from '' @ tsfile @ '':'') tserr]
             @ fst (pack env emptyOptions),
             snd (pack env emptyOptions))))"
proof (intro conjI impI)
  show "\<exists>tr opts. loadJSOptions env file = (tr, Inr opts)"
    by (rule loadJSOptions_returns)
  show "\<exists>tr opts. loadTSOptions env tsfile = (tr, Inr opts)"
    by (rule loadTSOptions_returns)
next
  assume a: "fs_readFileSync env file = Inr code
    \<and> (extname file = ''.js'' \<or> extname file = ''.cjs'' \<or> extname file = ''.mjs'')
    \<and> import_module env file = Inl err"
  then have ne: "file \<noteq> []" by auto
  show l: "loadOptionsFile env file =
        ([ReadFileSync file, Import file,
          ConsolaError (''Failed to load JavaScript config from '' @ file @ '':'') err],
         Inr emptyOptions)"
    using a loadOptionsFile_js [of env "file" code] by (simp add: loadJSOptions_cases)
  assume "path_file options = Some file"
  then show "run env (Some options) =
            ([ReadFileSync file, Import file,
              ConsolaError (''Failed to load JavaScript config from '' @ file @ '':'') err]
             @ fst (pack env emptyOptions),
             snd (pack env emptyOptions))"
    using run_file [OF ne, of options env] l by simp
next
  assume a: "fs_readFileSync env tsfile = Inr tscode
        \<and> (extname tsfile = ''.ts'' \<or> extname tsfile = ''.mts'')
        \<and> oxc_transform env tsfile tscode = Inr js \<and> js \<noteq> []
        \<and> import_module env (''data:text/javascript;charset=utf-8,'' @ encodeURIComponent env js)
            = Inl tserr"
  then have ne: "tsfile \<noteq> []" by auto
  show l: "loadOptionsFile env tsfile =
        ([ReadFileSync tsfile, ReadFileSync tsfile,
          Import (''data:text/javascript;charset=utf-8,'' @ encodeURIComponent env js),
          ConsolaError (''Failed to load TypeScript config from '' @ tsfile @ '':'') tserr],
         Inr emptyOptions)"
    using a loadOptionsFile_ts [of env tsfile tscode]
      loadTSOptions_import_throws [of env tsfile tscode js tserr] by simp
  assume "path_file tsoptions = Some tsfile"
  then show "run env (Some tsoptions) =
            ([ReadFileSync tsfile, ReadFileSync tsfile,
              Import (''data:text/javascript;charset=utf-8,'' @ encodeURIComponent env js),
              ConsolaError (''Failed to load TypeScript config from '' @ tsfile @ '':'') tserr]
             @ fst (pack env emptyOptions),
             snd (pack env emptyOptions))"
    using run_file [OF ne, of tsoptions env] l by simp
qed

theorem script_config_fail_soft_witness:
  "fs_readFileSync example_env ''/proj/library-pack.config.js'' = Inr ''throw 0''
   \<and> extname ''/proj/library-pack.config.js'' = ''.js''
   \<and> import_module example_env ''/proj/library-pack.config.js'' = Inl (Error ''0'')
   \<and> run example_env (Some (emptyOptions\<lparr>path_file := Some ''/proj/library-pack.config.js''\<rparr>))
       = ([ReadFileSync ''/proj/library-pack.config.js'',
           Import ''/proj/library-pack.config.js'',
           ConsolaError ''Failed to load JavaScript config from /proj/library-pack.config.js:''
             (Error ''0''),
           Glob [''**/*.ts''] (Some ''src'')
             (Some [''node_modules/**/*'', ''**/*.test.ts'', ''**/test/**/*'']),
           Transform ''/proj/src/a/b.ts'' (resolveOptions emptyOptions)],
          Inr ())
   \<and> fs_readFileSync example_env ''/proj/library-pack.config.ts'' = Inr ''throw 0 as never''
   \<and> extname ''/proj/library-pack.config.ts'' = ''.ts''
   \<and> oxc_transform example_env ''/proj/library-pack.config.ts'' ''throw 0 as never''
       = Inr example_js
   \<and> import_module example_env ''data:text/javascript;charset=utf-8,throw%200%3B%0A''
       = Inl (Error ''0'')
   \<and> run example_env (Some (emptyOptions\<lparr>path_file := Some ''/proj/library-pack.config.ts''\<rparr>))
       = ([ReadFileSync ''/proj/library-pack.config.ts'',
           ReadFileSync ''/proj/library-pack.config.ts'',
           Import ''data:text/javascript;charset=utf-8,throw%200%3B%0A'',
           ConsolaError ''Failed to load TypeScript config from /proj/library-pack.config.ts:''
             (Error ''0''),
           Glob [''**/*.ts''] (Some ''src'')
             (Some [''node_modules/**/*'', ''**/*.test.ts'', ''**/test/**/*'']),
           Transform ''/proj/src/a/b.ts'' (resolveOptions emptyOptions)],
          Inr ())"
proof -
  have js: "fs_readFileSync example_env ''/proj/library-pack.config.js'' = Inr ''throw 0''"
    "import_module example_env ''/proj/library-pack.config.js'' = Inl (Error ''0'')"
    by (simp_all add: example_env_def)
  have js_ext: "extname ''/proj/library-pack.config.js'' = ''.js''"
    by code_simp
  have ts: "fs_readFileSync example_env ''/proj/library-pack.config.ts'' = Inr ''throw 0 as never''"
    "oxc_transform example_env ''/proj/library-pack.config.ts'' ''throw 0 as never''
       = Inr example_js"
    "example_js \<noteq> []"
    "encodeURIComponent example_env example_js = ''throw%200%3B%0A''"
    "import_module example_env ''data:text/javascript;charset=utf-8,throw%200%3B%0A''
       = Inl (Error ''0'')"
    by (simp_all add: example_env_def example_js_def)
  have ts_ext: "extname ''/proj/library-pack.config.ts'' = ''.ts''"
    by code_simp
  show ?thesis
    using script_config_fail_soft
      [of example_env "''/proj/library-pack.config.js''" "''/proj/library-pack.config.ts''"
          "''throw 0''" "Error ''0''"
          "emptyOptions\<lparr>path_file := Some ''/proj/library-pack.config.js''\<rparr>"
          "''throw 0 as never''" example_js "Error ''0''"
          "emptyOptions\<lparr>path_file := Some ''/proj/library-pack.config.ts''\<rparr>"]
    by (simp add: js js_ext ts ts_ext example_pack_empty)
qed

lemma fst_bind_io:
  "set (fst (bind_io m f)) \<subseteq> set (fst m) \<union> (\<Union>a. set (fst (f a)))"
  by (cases m; cases "snd m") auto

lemma rmSync_all_no_config_access:
  "ev \<in> set (fst (rmSync_all env paths)) \<Longrightarrow> \<not> config_access ev"
proof (induction paths)
  case Nil
  then show ?case by (simp add: return_io_def)
next
  case (Cons path paths)
  then show ?case
    by (cases "fs_rmSync env path") (auto simp add: perform_def)
qed

lemma maybeEmptyDir_no_config_access:
  "ev \<in> set (fst (maybeEmptyDir env dir)) \<Longrightarrow> \<not> config_access ev"
  by (cases "fs_statSync_isDirectory env (the dir)"; cases "fs_readdirSync env (the dir)")
    (auto simp add: maybeEmptyDir_def perform_def return_io_def
      dest: rmSync_all_no_config_access split: if_splits)

lemma maybeEmptyDir_trace:
  "maybeEmptyDir env dir = (tr, r) \<Longrightarrow> ev \<in> set tr \<Longrightarrow> \<not> config_access ev"
  using maybeEmptyDir_no_config_access [of ev env dir] by simp

lemma pack_no_config_access:
  "ev \<in> set (fst (pack env options)) \<Longrightarrow> \<not> config_access ev"
  by (cases "glob_glob env (js_or truthy_object (includes (resolveOptions options)) [])
                 (srcdir (resolveOptions options)) (excludes (resolveOptions options))";
      cases "maybeEmptyDir env (outdir (resolveOptions options))";
      cases "snd (maybeEmptyDir env (outdir (resolveOptions options)))")
    (auto simp add: pack_def Let_def perform_def return_io_def
      dest: maybeEmptyDir_trace split: if_splits)

lemma run_direct:
  assumes "Object_keys options \<noteq> []"
    and "\<not> is_truthy truthy_string (path_file options)"
    and "\<not> is_truthy truthy_string (path_root options)"
  shows "run env (Some options) = pack env options"
  using assms by (simp add: run_def)

lemma example_run_None:
  "run example_env None =
     ([GlobSync [''/proj/library-pack.@(json|jsonc|json5|yaml|yml)'',
                 ''/proj/library-pack.config.@(ts|js|mts|cjs|mjs)''],
       Glob [''**/*.ts''] (Some ''src'')
         (Some [''node_modules/**/*'', ''**/*.test.ts'', ''**/test/**/*'']),
       Transform ''/proj/src/a/b.ts'' (resolveOptions emptyOptions)],
      Inr ())"
  by code_simp

lemma example_pack_lib:
  "pack example_env (emptyOptions\<lparr>srcdir := Some ''lib'', emptyOutdir := Some True\<rparr>) =
     ([Glob [''**/*.ts''] (Some ''lib'')
         (Some [''node_modules/**/*'', ''**/*.test.ts'', ''**/test/**/*'']),
       ExistsSync ''out'',
       Transform ''/proj/src/a/b.ts''
         (resolveOptions (emptyOptions\<lparr>srcdir := Some ''lib'', emptyOutdir := Some True\<rparr>))],
      Inr ())"
  by code_simp

lemma example_pack_undefined:
  "pack example_env (emptyOptions\<lparr>undefined_keys := [''srcdir'']\<rparr>) =
     ([Glob [''**/*.ts''] (Some ''src'')
         (Some [''node_modules/**/*'', ''**/*.test.ts'', ''**/test/**/*'']),
       Transform ''/proj/src/a/b.ts''
         (resolveOptions (emptyOptions\<lparr>undefined_keys := [''srcdir'']\<rparr>))],
      Inr ())"
  by code_simp

text \<open>
  C10. \<open>run\<close> on a non-empty options object without a file and without a root packs
  those options directly: it is \<open>pack\<close> of them, and no configuration file is
  detected, read or imported. Non-empty is what \<open>Object.keys\<close> says, so an object
  whose only keys have the value \<open>undefined\<close> is non-empty; and a file or a root that
  is \<open>undefined\<close> or the empty string counts as none, as in the code. Whenever \<open>run\<close>
  does look a configuration file up, it was called without options, with an empty
  object, or with a truthy file or root.
\<close>

theorem run_packs_directly:
  "(Object_keys options \<noteq> []
      \<and> \<not> is_truthy truthy_string (path_file options)
      \<and> \<not> is_truthy truthy_string (path_root options) \<longrightarrow>
      run env (Some options) = pack env options
      \<and> (\<forall>ev \<in> set (fst (run env (Some options))). \<not> config_access ev))
   \<and> ((\<exists>ev \<in> set (fst (run env arg)). config_access ev) \<longrightarrow>
        arg = None
        \<or> (\<exists>opts. arg = Some opts
              \<and> (Object_keys opts = []
                  \<or> is_truthy truthy_string (path_file opts)
                  \<or> is_truthy truthy_string (path_root opts))))"
proof (intro conjI impI)
  assume "Object_keys options \<noteq> []
      \<and> \<not> is_truthy truthy_string (path_file options)
      \<and> \<not> is_truthy truthy_string (path_root options)"
  then show "run env (Some options) = pack env options"
    by (simp add: run_direct)
  then show "\<forall>ev \<in> set (fst (run env (Some options))). \<not> config_access ev"
    using pack_no_config_access by metis
next
  assume ex: "\<exists>ev \<in> set (fst (run env arg)). config_access ev"
  show "arg = None
        \<or> (\<exists>opts. arg = Some opts
              \<and> (Object_keys opts = []
                  \<or> is_truthy truthy_string (path_file opts)
                  \<or> is_truthy truthy_string (path_root opts)))"
  proof (cases arg)
    case None
    then show ?thesis by simp
  next
    case (Some opts)
    have "Object_keys opts = []
        \<or> is_truthy truthy_string (path_file opts)
        \<or> is_truthy truthy_string (path_root opts)"
    proof (rule ccontr)
      assume "\<not> ?thesis"
      then have "run env (Some opts) = pack env opts"
        by (simp add: run_direct)
      with ex Some show False
        using pack_no_config_access by metis
    qed
    with Some show ?thesis by simp
  qed
qed

theorem run_packs_directly_witness:
  "Object_keys (emptyOptions\<lparr>srcdir := Some ''lib'', emptyOutdir := Some True\<rparr> :: unit PackOptions)
     = [''srcdir'', ''emptyOutdir'']
   \<and> \<not> is_truthy truthy_string
       (path_file (emptyOptions\<lparr>srcdir := Some ''lib'', emptyOutdir := Some True\<rparr> :: unit PackOptions))
   \<and> \<not> is_truthy truthy_string
       (path_root (emptyOptions\<lparr>srcdir := Some ''lib'', emptyOutdir := Some True\<rparr> :: unit PackOptions))
   \<and> run example_env (Some (emptyOptions\<lparr>srcdir := Some ''lib'', emptyOutdir := Some True\<rparr>))
       = ([Glob [''**/*.ts''] (Some ''lib'')
             (Some [''node_modules/**/*'', ''**/*.test.ts'', ''**/test/**/*'']),
           ExistsSync ''out'',
           Transform ''/proj/src/a/b.ts''
             (resolveOptions (emptyOptions\<lparr>srcdir := Some ''lib'', emptyOutdir := Some True\<rparr>))],
          Inr ())
   \<and> Object_keys (emptyOptions\<lparr>undefined_keys := [''srcdir'']\<rparr> :: unit PackOptions)
     = [''srcdir'']
   \<and> \<not> is_truthy truthy_string
       (path_file (emptyOptions\<lparr>undefined_keys := [''srcdir'']\<rparr> :: unit PackOptions))
   \<and> \<not> is_truthy truthy_string
       (path_root (emptyOptions\<lparr>undefined_keys := [''srcdir'']\<rparr> :: unit PackOptions))
   \<and> run example_env (Some (emptyOptions\<lparr>undefined_keys := [''srcdir'']\<rparr>))
       = ([Glob [''**/*.ts''] (Some ''src'')
             (Some [''node_modules/**/*'', ''**/*.test.ts'', ''**/test/**/*'']),
           Transform ''/proj/src/a/b.ts''
             (resolveOptions (emptyOptions\<lparr>undefined_keys := [''srcdir'']\<rparr>))],
          Inr ())
   \<and> (\<exists>ev \<in> set (fst (run example_env None)). config_access ev)"
proof -
  have keys:
    "Object_keys (emptyOptions\<lparr>srcdir := Some ''lib'', emptyOutdir := Some True\<rparr> :: unit PackOptions)
       = [''srcdir'', ''emptyOutdir'']"
    "Object_keys (emptyOptions\<lparr>undefined_keys := [''srcdir'']\<rparr> :: unit PackOptions)
       = [''srcdir'']"
    by (simp_all add: Object_keys_def key_def emptyOptions_fields)
  have none: "\<exists>ev \<in> set (fst (run example_env None)). config_access ev"
    by (simp add: example_run_None)
  show ?thesis
    using run_packs_directly
      [of "emptyOptions\<lparr>srcdir := Some ''lib'', emptyOutdir := Some True\<rparr>" example_env None]
      run_packs_directly
      [of "emptyOptions\<lparr>undefined_keys := [''srcdir'']\<rparr>" example_env None]
      keys none
    by (simp add: example_pack_lib example_pack_undefined emptyOptions_fields)
qed

end
